theory Spec2Isabelle
  imports Main
begin

section \<open>Python values used by both programs\<close>

text \<open>
  Python strings are modelled as \<^typ>\<open>string\<close>; a \<^typ>\<open>char\<close> stands for one code
  point below 256. A value of Python type \<open>Optional[str]\<close> is a \<^typ>\<open>string option\<close>,
  with \<open>None\<close> for Python's \<open>None\<close>.
\<close>

type_synonym pystr = "string option"

text \<open>Truthiness (\<open>if value\<close>, \<open>if not value\<close>): \<open>None\<close> and the empty string are false.\<close>

fun truthy :: "pystr \<Rightarrow> bool" where
  "truthy None = False"
| "truthy (Some s) = (s \<noteq> [])"

text \<open>What an f-string interpolates for an \<open>Optional[str]\<close>: \<open>str(None)\<close> is \<open>None\<close>.\<close>

fun fmt :: "pystr \<Rightarrow> string" where
  "fmt None = ''None''"
| "fmt (Some s) = s"

text \<open>
  \<open>str.isspace\<close> on the code points below 256: U+0009 to U+000D, U+001C to U+0020,
  U+0085 and U+00A0.
\<close>

definition is_space :: "char \<Rightarrow> bool" where
  "is_space c =
     (let n = (of_char c :: nat)
      in (9 \<le> n \<and> n \<le> 13) \<or> (28 \<le> n \<and> n \<le> 32) \<or> n = 133 \<or> n = 160)"

definition lstrip :: "string \<Rightarrow> string" where
  "lstrip s = dropWhile is_space s"

definition rstrip :: "string \<Rightarrow> string" where
  "rstrip s = rev (dropWhile is_space (rev s))"

text \<open>\<open>str.strip()\<close> with no argument removes leading and trailing whitespace.\<close>

definition strip :: "string \<Rightarrow> string" where
  "strip s = rstrip (lstrip s)"

text \<open>
  \<open>s.replace(old, new)\<close>: the occurrences of \<open>old\<close> are found from left to right,
  without overlap, and each is replaced by \<open>new\<close>. With an empty \<open>old\<close> Python puts
  \<open>new\<close> before every character and at the end.
\<close>

function replace_from :: "string \<Rightarrow> string \<Rightarrow> string \<Rightarrow> string" where
  "replace_from old new [] = []"
| "replace_from old new (c # cs) =
     (if old \<noteq> [] \<and> take (length old) (c # cs) = old
      then new @ replace_from old new (drop (length old) (c # cs))
      else c # replace_from old new cs)"
  by pat_completeness auto
termination
  by (relation "measure (\<lambda>(old, new, s). length s)") (auto simp: neq_Nil_conv)

definition str_replace :: "string \<Rightarrow> string \<Rightarrow> string \<Rightarrow> string" where
  "str_replace s old new =
     (if old = [] then new @ concat (map (\<lambda>c. c # new) s) else replace_from old new s)"

text \<open>A parsed JSON object whose members are strings or \<open>null\<close>, as a Python \<open>dict\<close>.\<close>

type_synonym jobject = "(string \<times> pystr) list"

text \<open>\<open>d.get(key)\<close>: \<open>None\<close> when the key is missing, the member (maybe \<open>None\<close>) otherwise.\<close>

definition dict_get :: "jobject \<Rightarrow> string \<Rightarrow> pystr" where
  "dict_get d k = (case map_of d k of None \<Rightarrow> None | Some v \<Rightarrow> v)"

text \<open>
  Python exceptions. \<open>OtherException cls msg\<close> is an exception of a class that neither
  program raises itself (a connection error, a JSON decoding error, ...), with its
  \<open>str()\<close>; none of these classes derives from \<open>RuntimeError\<close>.
\<close>

datatype exc =
    RuntimeError string
  | KeyError string
  | OtherException string string

fun exc_str :: "exc \<Rightarrow> string" where
  "exc_str (RuntimeError m) = m"
| "exc_str (KeyError k) = [CHR 0x27] @ k @ [CHR 0x27]"
| "exc_str (OtherException cls m) = m"

fun is_RuntimeError :: "exc \<Rightarrow> bool" where
  "is_RuntimeError (RuntimeError m) = True"
| "is_RuntimeError e = False"

section \<open>File Retrieval Service: configuration\<close>

text \<open>The process environment after \<open>load_dotenv()\<close>, as \<open>os.getenv\<close> reads it.\<close>

type_synonym environ = "string \<rightharpoonup> string"

text \<open>
  \<open>value = os.getenv(name)\<close> is \<open>None\<close> for an unset variable; \<open>not value\<close> holds
  for \<open>None\<close> and for the empty string.
\<close>

definition get_env_variable :: "environ \<Rightarrow> string \<Rightarrow> exc + string" where
  "get_env_variable env name =
     (case env name of
        None \<Rightarrow> Inl (RuntimeError (''Missing required environment variable: '' @ name))
      | Some v \<Rightarrow>
          if \<not> truthy (Some v)
          then Inl (RuntimeError (''Missing required environment variable: '' @ name))
          else Inr v)"

record settings =
  TENANT_ID :: string
  CLIENT_ID :: string
  CLIENT_SECRET :: string
  SITE_ID :: string
  DRIVE_ID :: string
  AUTHORITY :: string
  SCOPE :: string

text \<open>
  The module's top level reads the five variables in this order; the first
  \<open>RuntimeError\<close> aborts the import, so the service does not start.
\<close>

definition required_variables :: "string list" where
  "required_variables =
     [''TENANT_ID'', ''CLIENT_ID'', ''CLIENT_SECRET'', ''SITE_ID'', ''DRIVE_ID'']"

definition startup :: "environ \<Rightarrow> exc + settings" where
  "startup env =
     (case get_env_variable env ''TENANT_ID'' of Inl e \<Rightarrow> Inl e | Inr tenant_id \<Rightarrow>
     (case get_env_variable env ''CLIENT_ID'' of Inl e \<Rightarrow> Inl e | Inr client_id \<Rightarrow>
     (case get_env_variable env ''CLIENT_SECRET'' of Inl e \<Rightarrow> Inl e | Inr client_secret \<Rightarrow>
     (case get_env_variable env ''SITE_ID'' of Inl e \<Rightarrow> Inl e | Inr site_id \<Rightarrow>
     (case get_env_variable env ''DRIVE_ID'' of Inl e \<Rightarrow> Inl e | Inr drive_id \<Rightarrow>
        Inr \<lparr>TENANT_ID = tenant_id, CLIENT_ID = client_id, CLIENT_SECRET = client_secret,
             SITE_ID = site_id, DRIVE_ID = drive_id,
             AUTHORITY = ''https://login.microsoftonline.com/'' @ tenant_id @ ''/oauth2/v2.0/token'',
             SCOPE = ''https://graph.microsoft.com/.default''\<rparr>)))))"

section \<open>File Retrieval Service: outbound calls\<close>

text \<open>
  An outbound HTTP call: the URL with the form data (\<open>POST\<close>) or the headers (\<open>GET\<close>).
\<close>

datatype call =
    Post string "(string \<times> string) list"
  | Get string "(string \<times> string) list"

text \<open>
  What a successful response gives the code. \<open>body_text\<close> is what \<open>resp.text\<close>
  returns: httpx decodes the body with \<open>errors="replace"\<close>, so reading \<open>resp.text\<close>
  returns a string for every body, with U+FFFD in place of the bytes that are not valid
  in the response's encoding. \<open>body_decodable\<close> tells whether all bytes were valid.
  \<open>body_json\<close> is the result of \<open>response.json()\<close> (\<open>Inl msg\<close> when it raises).
\<close>

record payload =
  body_decodable :: bool
  body_text :: string
  body_json :: "string + jobject"

text \<open>
  Reading \<open>resp.text\<close>: \<open>None\<close> would stand for a \<open>UnicodeDecodeError\<close>, which httpx
  never raises here.
\<close>

definition response_text :: "payload \<Rightarrow> string option" where
  "response_text resp = Some (body_text resp)"

text \<open>
  The outcome of \<open>await client.get/post(...)\<close> followed by \<open>raise_for_status()\<close>:
  \<^item> \<open>StatusError code msg\<close>: \<open>raise_for_status\<close> raised \<open>httpx.HTTPStatusError\<close>;
    \<open>code\<close> is \<open>exc.response.status_code\<close>, \<open>msg\<close> is \<open>str(exc)\<close>;
  \<^item> \<open>TransportError msg\<close>: any other \<open>httpx.HTTPError\<close> (connection refused,
    timeout, ...);
  \<^item> \<open>OtherFailure cls msg\<close>: an exception outside \<open>httpx.HTTPError\<close>;
  \<^item> \<open>Success p\<close>: neither call raised.
\<close>

datatype upstream =
    TransportError string
  | StatusError nat string
  | OtherFailure string string
  | Success payload

text \<open>
  The network answers the \<open>k\<close>-th outbound call of the process (counted from 0) by
  \<open>net k call\<close>. The log of calls made so far is the only state that is threaded.
\<close>

type_synonym network = "nat \<Rightarrow> call \<Rightarrow> upstream"

definition send :: "network \<Rightarrow> call \<Rightarrow> call list \<Rightarrow> upstream \<times> call list" where
  "send net c log = (net (length log) c, log @ [c])"

section \<open>File Retrieval Service: operations\<close>

text \<open>
  What leaves a request handler: FastAPI's \<open>HTTPException\<close> with its status code and
  detail, which the framework turns into the response, or any other exception, which
  the handler does not catch.
\<close>

datatype failure = HTTPException nat string | Uncaught exc

definition token_form :: "settings \<Rightarrow> (string \<times> string) list" where
  "token_form cfg =
     [(''client_id'', CLIENT_ID cfg), (''client_secret'', CLIENT_SECRET cfg),
      (''scope'', SCOPE cfg), (''grant_type'', ''client_credentials'')]"

definition acquire_access_token ::
    "settings \<Rightarrow> network \<Rightarrow> call list \<Rightarrow> (failure + string) \<times> call list" where
  "acquire_access_token cfg net log =
     (let data = token_form cfg;
          (outcome, log') = send net (Post (AUTHORITY cfg) data) log
      in case outcome of
           TransportError m \<Rightarrow>
             (Inl (HTTPException 502 (''Failed to obtain access token: '' @ m)), log')
         | StatusError code m \<Rightarrow>
             (Inl (HTTPException 502 (''Failed to obtain access token: '' @ m)), log')
         | OtherFailure cls m \<Rightarrow> (Inl (Uncaught (OtherException cls m)), log')
         | Success response \<Rightarrow>
             (case body_json response of
                Inl m \<Rightarrow> (Inl (Uncaught (OtherException ''JSONDecodeError'' m)), log')
              | Inr token_data \<Rightarrow>
                  (case dict_get token_data ''access_token'' of
                     None \<Rightarrow>
                       (Inl (HTTPException 500
                          ''Authentication service returned no access token''), log')
                   | Some access_token \<Rightarrow>
                       if \<not> truthy (Some access_token)
                       then (Inl (HTTPException 500
                          ''Authentication service returned no access token''), log')
                       else (Inr access_token, log'))))"

text \<open>
  Lines 100 and 101 of \<open>download_file_by_path\<close>: \<open>folder\<close> is the request's
  \<open>Optional[str]\<close>; \<open>if folder\<close> is false for \<open>None\<close> and for the empty string.
\<close>

definition encoded_path :: "pystr \<Rightarrow> string \<Rightarrow> string" where
  "encoded_path folder' file_name =
     (let path = (case folder' of
                    None \<Rightarrow> ''/'' @ file_name
                  | Some f \<Rightarrow>
                      if truthy (Some f) then ''/'' @ strip f @ ''/'' @ file_name
                      else ''/'' @ file_name)
      in str_replace path '' '' ''%20'')"

definition content_url :: "settings \<Rightarrow> string \<Rightarrow> string" where
  "content_url cfg p =
     ''https://graph.microsoft.com/v1.0/drives/'' @ DRIVE_ID cfg @ ''/root:'' @ p @ '':/content''"

definition not_found_detail :: "string \<Rightarrow> pystr \<Rightarrow> string" where
  "not_found_detail file_name folder' =
     ''Archivo '' @ [CHR 0x27] @ file_name @ [CHR 0x27] @ '' no encontrado en ''
       @ [CHR 0x27] @ fmt folder' @ [CHR 0x27]"

definition download_file_by_path ::
    "settings \<Rightarrow> network \<Rightarrow> pystr \<Rightarrow> string \<Rightarrow> string \<Rightarrow> call list
       \<Rightarrow> (failure + string) \<times> call list" where
  "download_file_by_path cfg net folder' file_name access_token log =
     (let headers = [(''Authorization'', ''Bearer '' @ access_token)];
          url = content_url cfg (encoded_path folder' file_name);
          (outcome, log') = send net (Get url headers) log
      in case outcome of
           StatusError code m \<Rightarrow>
             if code = 404
             then (Inl (HTTPException 404 (not_found_detail file_name folder')), log')
             else (Inl (HTTPException 500 (''Error al acceder a Graph: '' @ m)), log')
         | TransportError m \<Rightarrow> (Inl (Uncaught (OtherException ''httpx.TransportError'' m)), log')
         | OtherFailure cls m \<Rightarrow> (Inl (Uncaught (OtherException cls m)), log')
         | Success resp \<Rightarrow>
             (case response_text resp of
                None \<Rightarrow>
                  (Inl (HTTPException 400
                     ''El archivo no contiene datos de texto legibles.''), log')
              | Some t \<Rightarrow> (Inr t, log')))"

text \<open>The request body after validation.\<close>

record FileRequest =
  fileName :: string
  folder :: pystr

definition get_file ::
    "settings \<Rightarrow> network \<Rightarrow> FileRequest \<Rightarrow> call list \<Rightarrow> (failure + string) \<times> call list" where
  "get_file cfg net request log =
     (case acquire_access_token cfg net log of
        (Inl e, log') \<Rightarrow> (Inl e, log')
      | (Inr access_token, log') \<Rightarrow>
          download_file_by_path cfg net (folder request) (fileName request) access_token log')"

text \<open>
  The schema: \<open>fileName: str = Field(...)\<close> is required and has no length constraint;
  \<open>folder: Optional[str] = Field("")\<close> may be missing (then it is the empty string),
  \<open>null\<close> or a string. A member of the JSON body is missing, \<open>null\<close> or a string.
  A body that does not fit the schema is refused with a \<open>RequestValidationError\<close>
  naming the member at fault, before the handler runs.
\<close>

datatype member = Missing | Null | Str string

datatype rejection = RequestValidationError string

record body =
  fileName_member :: member
  folder_member :: member

definition parse_FileRequest :: "body \<Rightarrow> rejection + FileRequest" where
  "parse_FileRequest b =
     (case fileName_member b of
        Missing \<Rightarrow> Inl (RequestValidationError ''fileName'')
      | Null \<Rightarrow> Inl (RequestValidationError ''fileName'')
      | Str n \<Rightarrow>
          Inr \<lparr>fileName = n,
               folder = (case folder_member b of
                           Missing \<Rightarrow> Some []
                         | Null \<Rightarrow> None
                         | Str f \<Rightarrow> Some f)\<rparr>)"

section \<open>Identifier Discovery Utility\<close>

text \<open>
  A Graph JSON document as the utility reads it: its string (or \<open>null\<close>) members, and
  the \<open>value\<close> collection of a listing (\<open>None\<close> when the document has no \<open>value\<close>
  member or it is \<open>null\<close>: \<open>not drives\<close> holds in both cases).
\<close>

record document =
  members :: jobject
  value_member :: "jobject list option"

text \<open>
  A \<open>requests.Response\<close>: \<open>http_error\<close> is \<open>Some msg\<close> when \<open>raise_for_status()\<close>
  raises \<open>requests.HTTPError\<close> with \<open>str(exc) = msg\<close>; \<open>resp_json\<close> is \<open>Inl msg\<close>
  when \<open>resp.json()\<close> raises.
\<close>

record response =
  http_error :: "string option"
  resp_text :: string
  resp_json :: "string + document"

text \<open>
  \<open>bool(response)\<close> is \<open>response.ok\<close>, which is false exactly when
  \<open>raise_for_status()\<close> raises.
\<close>

definition response_ok :: "response \<Rightarrow> bool" where
  "response_ok r = (http_error r = None)"

text \<open>
  \<open>requests.post\<close> and \<open>requests.get\<close> either raise (\<open>Raised cls msg\<close>: a connection
  error, a timeout, ...; none of these classes derives from \<open>RuntimeError\<close>) or return
  a response.
\<close>

datatype reply = Raised string string | Reply response

type_synonym web = "nat \<Rightarrow> call \<Rightarrow> reply"

definition request :: "web \<Rightarrow> call \<Rightarrow> call list \<Rightarrow> reply \<times> call list" where
  "request w c log = (w (length log) c, log @ [c])"

definition acquire_token ::
    "string \<Rightarrow> string \<Rightarrow> string \<Rightarrow> web \<Rightarrow> call list \<Rightarrow> (exc + string) \<times> call list" where
  "acquire_token tenant_id client_id client_secret w log =
     (let token_url = ''https://login.microsoftonline.com/'' @ tenant_id @ ''/oauth2/v2.0/token'';
          data = [(''client_id'', client_id), (''client_secret'', client_secret),
                  (''scope'', ''https://graph.microsoft.com/.default''),
                  (''grant_type'', ''client_credentials'')];
          (r, log') = request w (Post token_url data) log
      in case r of
           Raised cls m \<Rightarrow> (Inl (OtherException cls m), log')
         | Reply resp \<Rightarrow>
             (case http_error resp of
                Some m \<Rightarrow>
                  (Inl (RuntimeError (''Failed to obtain token: ''
                      @ (if response_ok resp then resp_text resp else m))), log')
              | None \<Rightarrow>
                  (case resp_json resp of
                     Inl m \<Rightarrow> (Inl (OtherException ''JSONDecodeError'' m), log')
                   | Inr doc \<Rightarrow>
                       (case dict_get (members doc) ''access_token'' of
                          None \<Rightarrow>
                            (Inl (RuntimeError ''Token endpoint returned no access_token''), log')
                        | Some token \<Rightarrow>
                            if \<not> truthy (Some token)
                            then (Inl (RuntimeError
                                   ''Token endpoint returned no access_token''), log')
                            else (Inr token, log')))))"

definition get_site_id ::
    "string \<Rightarrow> string \<Rightarrow> (string \<times> string) list \<Rightarrow> web \<Rightarrow> call list
       \<Rightarrow> (exc + string) \<times> call list" where
  "get_site_id domain site_name headers w log =
     (let url = ''https://graph.microsoft.com/v1.0/sites/'' @ domain @ '':/''
                  @ (''sites/'' @ site_name);
          (r, log') = request w (Get url headers) log
      in case r of
           Raised cls m \<Rightarrow> (Inl (OtherException cls m), log')
         | Reply resp \<Rightarrow>
             (case http_error resp of
                Some m \<Rightarrow> (Inl (OtherException ''HTTPError'' m), log')
              | None \<Rightarrow>
                  (case resp_json resp of
                     Inl m \<Rightarrow> (Inl (OtherException ''JSONDecodeError'' m), log')
                   | Inr data \<Rightarrow>
                       (case dict_get (members data) ''id'' of
                          None \<Rightarrow>
                            (Inl (RuntimeError ''Failed to obtain site id from response''), log')
                        | Some site_id \<Rightarrow>
                            if \<not> truthy (Some site_id)
                            then (Inl (RuntimeError
                                   ''Failed to obtain site id from response''), log')
                            else (Inr site_id, log')))))"

text \<open>
  \<open>drives[0]["id"]\<close> raises \<open>KeyError\<close> when the first entry has no \<open>id\<close> member, and
  is \<open>None\<close> when the member is \<open>null\<close>.
\<close>

definition get_default_drive_id ::
    "string \<Rightarrow> (string \<times> string) list \<Rightarrow> web \<Rightarrow> call list
       \<Rightarrow> (exc + pystr) \<times> call list" where
  "get_default_drive_id site_id headers w log =
     (let url = ''https://graph.microsoft.com/v1.0/sites/'' @ site_id @ ''/drives'';
          (r, log') = request w (Get url headers) log
      in case r of
           Raised cls m \<Rightarrow> (Inl (OtherException cls m), log')
         | Reply resp \<Rightarrow>
             (case http_error resp of
                Some m \<Rightarrow> (Inl (OtherException ''HTTPError'' m), log')
              | None \<Rightarrow>
                  (case resp_json resp of
                     Inl m \<Rightarrow> (Inl (OtherException ''JSONDecodeError'' m), log')
                   | Inr doc \<Rightarrow>
                       (let drives = (case value_member doc of None \<Rightarrow> [] | Some ds \<Rightarrow> ds)
                        in case drives of
                             [] \<Rightarrow> (Inl (RuntimeError ''The specified site has no drives''), log')
                           | d # rest \<Rightarrow>
                               (case map_of d ''id'' of
                                  None \<Rightarrow> (Inl (KeyError ''id''), log')
                                | Some drive_id \<Rightarrow> (Inr drive_id, log'))))))"

text \<open>The five required command-line arguments, after \<open>parse_args\<close>.\<close>

record args =
  site_name_arg :: string
  domain_arg :: string
  tenant_id_arg :: string
  client_id_arg :: string
  client_secret_arg :: string

text \<open>
  A run of \<open>main\<close>: what it returns (\<open>Inr status\<close>) or the exception that leaves it
  (\<open>Inl e\<close>), the lines printed to standard output and to the error stream (one entry
  per \<open>print\<close> call), and the outbound calls in the order they were made.
\<close>

record run =
  result :: "exc + int"
  stdout :: "string list"
  stderr :: "string list"
  calls :: "call list"

definition main :: "args \<Rightarrow> web \<Rightarrow> run" where
  "main a w =
     (case acquire_token (tenant_id_arg a) (client_id_arg a) (client_secret_arg a) w [] of
        (Inl e, log1) \<Rightarrow>
          if is_RuntimeError e
          then \<lparr>result = Inr 1, stdout = [],
                stderr = [''Error acquiring token: '' @ exc_str e], calls = log1\<rparr>
          else \<lparr>result = Inl e, stdout = [], stderr = [], calls = log1\<rparr>
      | (Inr token, log1) \<Rightarrow>
          (let headers = [(''Authorization'', ''Bearer '' @ token)]
           in case get_site_id (domain_arg a) (site_name_arg a) headers w log1 of
                (Inl e, log2) \<Rightarrow>
                  \<lparr>result = Inr 1, stdout = [],
                   stderr = [''Error obtaining site ID: '' @ exc_str e], calls = log2\<rparr>
              | (Inr site_id, log2) \<Rightarrow>
                  (case get_default_drive_id site_id headers w log2 of
                     (Inl e, log3) \<Rightarrow>
                       \<lparr>result = Inr 1, stdout = [],
                        stderr = [''Error obtaining drive ID: '' @ exc_str e], calls = log3\<rparr>
                   | (Inr drive_id, log3) \<Rightarrow>
                       \<lparr>result = Inr 0,
                        stdout = [''SITE_ID='' @ site_id, ''DRIVE_ID='' @ fmt drive_id],
                        stderr = [], calls = log3\<rparr>)))"

section \<open>The specification's wording, for comparison\<close>

text \<open>
  The specification's description of the path encoding: every space character, and
  nothing else, is replaced by \<open>%20\<close>.
\<close>

definition percent_encode_spaces :: "string \<Rightarrow> string" where
  "percent_encode_spaces s = concat (map (\<lambda>c. if c = CHR '' '' then ''%20'' else [c]) s)"

text \<open>
  The remote path as the specification words it: \<open>/{f}/{n}\<close> for a non-empty folder
  \<open>f\<close>, \<open>/{n}\<close> for an empty one, then the encoding of spaces.
\<close>

definition claimed_path :: "string \<Rightarrow> string \<Rightarrow> string" where
  "claimed_path f n =
     percent_encode_spaces (if f \<noteq> [] then ''/'' @ f @ ''/'' @ n else ''/'' @ n)"

section \<open>Concrete inputs used by the examples\<close>

definition example_settings :: settings where
  "example_settings =
     \<lparr>TENANT_ID = ''t'', CLIENT_ID = ''c'', CLIENT_SECRET = ''s'', SITE_ID = ''i'',
      DRIVE_ID = ''d'', AUTHORITY = ''https://login.microsoftonline.com/t/oauth2/v2.0/token'',
      SCOPE = ''https://graph.microsoft.com/.default''\<rparr>"

definition token_payload :: "string \<Rightarrow> payload" where
  "token_payload tok = \<lparr>body_decodable = True, body_text = [], body_json = Inr [(''access_token'', Some tok)]\<rparr>"

text \<open>
  A network whose token endpoint issues \<open>first\<close> to the first call of the process and
  \<open>second\<close> to every later one, and whose content endpoint always returns \<open>hello\<close>.
\<close>

definition example_network :: network where
  "example_network k c =
     (case c of
        Post u f \<Rightarrow> Success (token_payload (if k = 0 then ''first'' else ''second''))
      | Get u h \<Rightarrow> Success \<lparr>body_decodable = True, body_text = ''hello'', body_json = Inl ''not JSON''\<rparr>)"

text \<open>Inputs of the Discovery Utility.\<close>

definition example_args :: args where
  "example_args = \<lparr>site_name_arg = ''Ventas'', domain_arg = ''contoso.sharepoint.com'',
            tenant_id_arg = ''t'', client_id_arg = ''c'', client_secret_arg = ''s''\<rparr>"

definition json_reply :: "document \<Rightarrow> reply" where
  "json_reply doc = Reply \<lparr>http_error = None, resp_text = [], resp_json = Inr doc\<rparr>"

text \<open>
  A web that answers the token call with a token, the second call of the run with a
  site, and any other \<open>GET\<close> with a listing of two drives.
\<close>

definition example_web :: web where
  "example_web k c =
     (case c of
        Post u f \<Rightarrow> json_reply \<lparr>members = [(''access_token'', Some ''tok'')], value_member = None\<rparr>
      | Get u h \<Rightarrow>
          if k = 1 then json_reply \<lparr>members = [(''id'', Some ''site-1'')], value_member = None\<rparr>
          else json_reply \<lparr>members = [],
                 value_member = Some [[(''id'', Some ''drive-A''), (''name'', Some ''Documents'')],
                                      [(''id'', Some ''drive-B'')]]\<rparr>)"

section \<open>Strings: replacing and stripping\<close>

text \<open>
  Replacing a one-character pattern replaces each occurrence of that character and
  leaves every other character in place.
\<close>

lemma replace_from_single:
  "replace_from [x] new s = concat (map (\<lambda>c. if c = x then new else [c]) s)"
  by (induction s) auto

lemma str_replace_space: "str_replace s '' '' ''%20'' = percent_encode_spaces s"
  by (simp add: str_replace_def percent_encode_spaces_def replace_from_single)

lemma percent_encode_spaces_no_space: "CHR '' '' \<notin> set (percent_encode_spaces s)"
  by (induction s) (auto simp: percent_encode_spaces_def)

lemma lstrip_decomp: "\<exists>a. s = a @ lstrip s \<and> (\<forall>c \<in> set a. is_space c)"
  unfolding lstrip_def
  by (metis takeWhile_dropWhile_id set_takeWhileD)

lemma rstrip_decomp: "\<exists>b. s = rstrip s @ b \<and> (\<forall>c \<in> set b. is_space c)"
proof -
  have "rev s = takeWhile is_space (rev s) @ dropWhile is_space (rev s)" by simp
  then have "s = rev (dropWhile is_space (rev s)) @ rev (takeWhile is_space (rev s))"
    by (metis rev_append rev_rev_ident)
  moreover have "\<forall>c \<in> set (rev (takeWhile is_space (rev s))). is_space c"
    by (auto dest: set_takeWhileD)
  ultimately show ?thesis unfolding rstrip_def by blast
qed

text \<open>
  \<open>strip\<close> removes a run of whitespace at each end, and what remains neither starts
  nor ends with whitespace.
\<close>

lemma strip_decomp:
  "\<exists>a b. s = a @ strip s @ b \<and> (\<forall>c \<in> set a. is_space c) \<and> (\<forall>c \<in> set b. is_space c)"
proof -
  obtain a where a: "s = a @ lstrip s" "\<forall>c \<in> set a. is_space c"
    using lstrip_decomp by blast
  obtain b where b: "lstrip s = rstrip (lstrip s) @ b" "\<forall>c \<in> set b. is_space c"
    using rstrip_decomp by blast
  have "s = a @ strip s @ b" using a(1) b(1) by (simp add: strip_def)
  then show ?thesis using a(2) b(2) by blast
qed

lemma strip_ends:
  assumes "strip s \<noteq> []"
  shows "\<not> is_space (hd (strip s)) \<and> \<not> is_space (last (strip s))"
proof -
  obtain b where b: "lstrip s = strip s @ b"
    using rstrip_decomp [of "lstrip s"] by (auto simp: strip_def)
  have ne: "lstrip s \<noteq> []" using assms b by auto
  have "hd (strip s) = hd (lstrip s)" using assms b by (metis hd_append2)
  moreover have "\<not> is_space (hd (lstrip s))"
    using ne unfolding lstrip_def by (rule hd_dropWhile)
  moreover have "last (strip s) = hd (dropWhile is_space (rev (lstrip s)))"
    using assms by (simp add: strip_def rstrip_def last_rev)
  moreover have "\<not> is_space (hd (dropWhile is_space (rev (lstrip s))))"
  proof (rule hd_dropWhile)
    show "dropWhile is_space (rev (lstrip s)) \<noteq> []"
      using assms by (simp add: strip_def rstrip_def)
  qed
  ultimately show ?thesis by simp
qed

lemma encoded_path_eq:
  "encoded_path folder' n =
     percent_encode_spaces
       (case folder' of None \<Rightarrow> ''/'' @ n
        | Some f \<Rightarrow> if f = [] then ''/'' @ n else ''/'' @ strip f @ ''/'' @ n)"
  by (simp add: encoded_path_def str_replace_space split: option.splits)

section \<open>File Retrieval Service: the remote path\<close>

text \<open>
  C1 (amended). For every request to Download File By Path with file name \<open>n\<close> and
  folder \<open>f\<close>, exactly one call is made, a \<open>GET\<close> of the content URL built on the
  encoded path, with the bearer token. Before encoding, the path is \<open>/{f'}/{n}\<close> where
  \<open>f'\<close> is \<open>f\<close> without its leading and trailing whitespace when \<open>f\<close> is a non-empty
  string, and \<open>/{n}\<close> when \<open>f\<close> is empty or \<open>None\<close>; then every space character, and
  only space characters, is replaced by \<open>%20\<close>. For a folder that neither starts nor
  ends with whitespace this is the path the specification gives.
\<close>

theorem download_remote_path:
  "snd (download_file_by_path cfg net folder' n tok log)
     = log @ [Get (content_url cfg (encoded_path folder' n))
                  [(''Authorization'', ''Bearer '' @ tok)]]
   \<and> (folder' = Some f \<and> f \<noteq> [] \<longrightarrow>
        encoded_path folder' n = percent_encode_spaces (''/'' @ strip f @ ''/'' @ n))
   \<and> (folder' = None \<or> folder' = Some [] \<longrightarrow>
        encoded_path folder' n = percent_encode_spaces (''/'' @ n))
   \<and> (folder' = Some f \<and> strip f = f \<longrightarrow> encoded_path folder' n = claimed_path f n)"
  by (auto simp: download_file_by_path_def send_def Let_def encoded_path_eq claimed_path_def
      split: upstream.splits option.splits)

text \<open>The specification's example: folder \<open>My Docs\<close>, file \<open>a b.txt\<close>.\<close>

theorem download_remote_path_witness:
  "encoded_path (Some ''My Docs'') ''a b.txt'' = ''/My%20Docs/a%20b.txt''
   \<and> strip ''My Docs'' = ''My Docs''"
  using download_remote_path [of cfg net "Some ''My Docs''" "''a b.txt''" tok log "''My Docs''"]
  by (simp add: percent_encode_spaces_def strip_def lstrip_def rstrip_def is_space_def)

text \<open>
  The claim as worded fails for a folder with a leading space: the code sends
  \<open>/x/a\<close>, the specification's path is \<open>/%20x/a\<close>.
\<close>

theorem remote_path_counterexample:
  "encoded_path (Some '' x'') ''a'' = ''/x/a'' \<and> claimed_path '' x'' ''a'' = ''/%20x/a''
   \<and> encoded_path (Some '' x'') ''a'' \<noteq> claimed_path '' x'' ''a''"
  by (simp add: encoded_path_eq claimed_path_def percent_encode_spaces_def strip_def
      lstrip_def rstrip_def is_space_def)

section \<open>File Retrieval Service: startup\<close>

text \<open>
  Startup fails on the first required variable, in reading order, that is unset or
  empty, and succeeds when there is none.
\<close>

lemma get_env_variable_eq:
  "get_env_variable env name =
     (if truthy (env name) then Inr (fmt (env name))
      else Inl (RuntimeError (''Missing required environment variable: '' @ name)))"
  by (cases "env name") (simp_all add: get_env_variable_def)

lemma startup_fails_first:
  "startup env =
     (case find (\<lambda>m. \<not> truthy (env m)) required_variables of
        Some m \<Rightarrow> Inl (RuntimeError (''Missing required environment variable: '' @ m))
      | None \<Rightarrow>
          Inr \<lparr>TENANT_ID = fmt (env ''TENANT_ID''), CLIENT_ID = fmt (env ''CLIENT_ID''),
               CLIENT_SECRET = fmt (env ''CLIENT_SECRET''), SITE_ID = fmt (env ''SITE_ID''),
               DRIVE_ID = fmt (env ''DRIVE_ID''),
               AUTHORITY = ''https://login.microsoftonline.com/'' @ fmt (env ''TENANT_ID'')
                             @ ''/oauth2/v2.0/token'',
               SCOPE = ''https://graph.microsoft.com/.default''\<rparr>)"
  by (simp add: startup_def required_variables_def get_env_variable_eq)

lemma find_first:
  "x \<in> set xs \<Longrightarrow> P x \<Longrightarrow> \<forall>y \<in> set (takeWhile (\<lambda>y. y \<noteq> x) xs). \<not> P y
     \<Longrightarrow> find P xs = Some x"
proof (induction xs)
  case Nil
  then show ?case by simp
next
  case (Cons a xs)
  show ?case
  proof (cases "a = x")
    case True
    then show ?thesis using Cons.prems(2) by simp
  next
    case False
    then have "\<not> P a" using Cons.prems(3) by simp
    moreover have "find P xs = Some x"
      using Cons.prems False by (intro Cons.IH) auto
    ultimately show ?thesis by simp
  qed
qed

lemma find_some_member:
  "x \<in> set xs \<Longrightarrow> P x \<Longrightarrow>
     \<exists>y \<in> set xs. P y \<and> find P xs = Some y
        \<and> (\<forall>k \<in> set (takeWhile (\<lambda>k. k \<noteq> y) xs). \<not> P k)"
proof (induction xs)
  case Nil
  then show ?case by simp
next
  case (Cons a xs)
  show ?case
  proof (cases "P a")
    case True
    then show ?thesis by simp
  next
    case False
    then have "x \<in> set xs" using Cons.prems by auto
    then obtain y where y: "y \<in> set xs" "P y" "find P xs = Some y"
        "\<forall>k \<in> set (takeWhile (\<lambda>k. k \<noteq> y) xs). \<not> P k"
      using Cons.IH Cons.prems(2) by blast
    have "a \<noteq> y" using False y(2) by auto
    then show ?thesis using False y by auto
  qed
qed

text \<open>
  C9. For each of the five required environment variables: if that variable is absent
  at process start, the other required variables being present and non-empty (the
  variable removed from a complete environment), the service fails to start with the
  configuration error that names exactly that variable. It is enough that the
  variables read before it are present and non-empty; and whenever a required variable
  is absent, startup fails with the error naming the first required variable, in the
  order \<open>TENANT_ID\<close>, \<open>CLIENT_ID\<close>, \<open>CLIENT_SECRET\<close>, \<open>SITE_ID\<close>, \<open>DRIVE_ID\<close>, that is
  absent or empty.
\<close>

theorem startup_names_missing_variable:
  assumes "name \<in> set required_variables" and "env name = None"
  shows "((\<forall>m \<in> set required_variables. m \<noteq> name \<longrightarrow> truthy (env m)) \<longrightarrow>
            startup env = Inl (RuntimeError (''Missing required environment variable: '' @ name)))
       \<and> (\<exists>m \<in> set required_variables. \<not> truthy (env m) \<and>
            (\<forall>k \<in> set (takeWhile (\<lambda>k. k \<noteq> m) required_variables). truthy (env k)) \<and>
            startup env = Inl (RuntimeError (''Missing required environment variable: '' @ m)))
       \<and> ((\<forall>m \<in> set (takeWhile (\<lambda>m. m \<noteq> name) required_variables). truthy (env m)) \<longrightarrow>
            startup env = Inl (RuntimeError (''Missing required environment variable: '' @ name)))"
proof -
  have absent: "\<not> truthy (env name)" using assms(2) by simp
  obtain m where m: "m \<in> set required_variables" "\<not> truthy (env m)"
      "find (\<lambda>m. \<not> truthy (env m)) required_variables = Some m"
      "\<forall>k \<in> set (takeWhile (\<lambda>k. k \<noteq> m) required_variables). truthy (env k)"
    using find_some_member [of name required_variables "\<lambda>m. \<not> truthy (env m)"] assms(1) absent
    by blast
  have first: "\<exists>m \<in> set required_variables. \<not> truthy (env m) \<and>
            (\<forall>k \<in> set (takeWhile (\<lambda>k. k \<noteq> m) required_variables). truthy (env k)) \<and>
            startup env = Inl (RuntimeError (''Missing required environment variable: '' @ m))"
    using m by (auto simp: startup_fails_first)
  have second: "startup env = Inl (RuntimeError (''Missing required environment variable: '' @ name))"
    if "\<forall>m \<in> set (takeWhile (\<lambda>m. m \<noteq> name) required_variables). truthy (env m)"
  proof -
    have "find (\<lambda>m. \<not> truthy (env m)) required_variables = Some name"
      using assms(1) absent that by (intro find_first) auto
    then show ?thesis by (simp add: startup_fails_first)
  qed
  have only: "startup env = Inl (RuntimeError (''Missing required environment variable: '' @ name))"
    if others: "\<forall>m \<in> set required_variables. m \<noteq> name \<longrightarrow> truthy (env m)"
  proof -
    have "\<forall>m \<in> set (takeWhile (\<lambda>m. m \<noteq> name) required_variables). truthy (env m)"
      using others by (auto dest: set_takeWhileD)
    then show ?thesis by (rule second)
  qed
  show ?thesis using first second only by blast
qed

text \<open>\<open>SITE_ID\<close> removed from a complete environment.\<close>

theorem startup_names_missing_variable_witness:
  "''SITE_ID'' \<in> set required_variables
   \<and> map_of [(''TENANT_ID'', ''t''), (''CLIENT_ID'', ''c''), (''CLIENT_SECRET'', ''s''),
              (''DRIVE_ID'', ''d'')] ''SITE_ID'' = None
   \<and> startup (map_of [(''TENANT_ID'', ''t''), (''CLIENT_ID'', ''c''), (''CLIENT_SECRET'', ''s''),
                    (''DRIVE_ID'', ''d'')])
     = Inl (RuntimeError ''Missing required environment variable: SITE_ID'')"
  using startup_names_missing_variable [of "''SITE_ID''"
      "map_of [(''TENANT_ID'', ''t''), (''CLIENT_ID'', ''c''), (''CLIENT_SECRET'', ''s''),
               (''DRIVE_ID'', ''d'')]"]
  by (simp add: required_variables_def)

text \<open>
  When several variables are missing, one error is raised, for the first of them:
  with \<open>TENANT_ID\<close> and \<open>DRIVE_ID\<close> both absent the error names \<open>TENANT_ID\<close>.
\<close>

lemma startup_two_missing_example:
  "startup (map_of [(''CLIENT_ID'', ''c''), (''CLIENT_SECRET'', ''s''), (''SITE_ID'', ''i'')])
       = Inl (RuntimeError ''Missing required environment variable: TENANT_ID'')"
  by (simp add: startup_def get_env_variable_def)

lemma get_env_variable_cleared:
  "env name = Some [] \<Longrightarrow> get_env_variable (env(name := None)) m = get_env_variable env m"
  by (simp add: get_env_variable_def)

text \<open>
  C10. A required variable that is present but equal to the empty string is treated as
  an absent one. \<open>get_env_variable\<close> raises the configuration error naming it, the same
  result as for the environment without that variable, and startup as a whole gives the
  same result on both environments. So startup fails when the variable is a required
  one, and the error names that variable when the other required variables are present
  and non-empty (it is enough that those read before it are).
\<close>

theorem empty_value_is_missing:
  assumes "env name = Some []"
  shows "get_env_variable env name
           = Inl (RuntimeError (''Missing required environment variable: '' @ name))
       \<and> get_env_variable env name = get_env_variable (env(name := None)) name
       \<and> startup env = startup (env(name := None))
       \<and> (name \<in> set required_variables \<longrightarrow> isl (startup env))
       \<and> (name \<in> set required_variables
            \<and> (\<forall>m \<in> set required_variables. m \<noteq> name \<longrightarrow> truthy (env m)) \<longrightarrow>
            startup env = Inl (RuntimeError (''Missing required environment variable: '' @ name)))
       \<and> (name \<in> set required_variables
            \<and> (\<forall>m \<in> set (takeWhile (\<lambda>m. m \<noteq> name) required_variables). truthy (env m)) \<longrightarrow>
            startup env = Inl (RuntimeError (''Missing required environment variable: '' @ name)))"
proof -
  have empty: "\<not> truthy (env name)" using assms by simp
  have a: "get_env_variable env name
           = Inl (RuntimeError (''Missing required environment variable: '' @ name))"
    using assms by (simp add: get_env_variable_def)
  have b: "get_env_variable env name = get_env_variable (env(name := None)) name"
    using assms by (simp add: get_env_variable_def)
  have c: "startup env = startup (env(name := None))"
    unfolding startup_def by (simp only: get_env_variable_cleared [of env name, OF assms])
  have d: "isl (startup env)" if mem: "name \<in> set required_variables"
  proof -
    obtain m where "find (\<lambda>m. \<not> truthy (env m)) required_variables = Some m"
      using find_some_member [of name required_variables "\<lambda>m. \<not> truthy (env m)"] mem empty
      by blast
    then show ?thesis by (simp add: startup_fails_first)
  qed
  have e: "startup env = Inl (RuntimeError (''Missing required environment variable: '' @ name))"
    if mem: "name \<in> set required_variables"
      and before: "\<forall>m \<in> set (takeWhile (\<lambda>m. m \<noteq> name) required_variables). truthy (env m)"
  proof -
    have "find (\<lambda>m. \<not> truthy (env m)) required_variables = Some name"
      using mem empty before by (intro find_first) auto
    then show ?thesis by (simp add: startup_fails_first)
  qed
  have f: "startup env = Inl (RuntimeError (''Missing required environment variable: '' @ name))"
    if mem: "name \<in> set required_variables"
      and others: "\<forall>m \<in> set required_variables. m \<noteq> name \<longrightarrow> truthy (env m)"
  proof -
    have "\<forall>m \<in> set (takeWhile (\<lambda>m. m \<noteq> name) required_variables). truthy (env m)"
      using others by (auto dest: set_takeWhileD)
    then show ?thesis using mem by (intro e)
  qed
  show ?thesis using a b c d e f by blast
qed

text \<open>A complete environment in which \<open>CLIENT_SECRET\<close> is the empty string.\<close>

theorem empty_value_is_missing_witness:
  "map_of [(''TENANT_ID'', ''t''), (''CLIENT_ID'', ''c''), (''CLIENT_SECRET'', ''''),
           (''SITE_ID'', ''i''), (''DRIVE_ID'', ''d'')] ''CLIENT_SECRET'' = Some []
   \<and> get_env_variable
        (map_of [(''TENANT_ID'', ''t''), (''CLIENT_ID'', ''c''), (''CLIENT_SECRET'', ''''),
                 (''SITE_ID'', ''i''), (''DRIVE_ID'', ''d'')]) ''CLIENT_SECRET''
       = Inl (RuntimeError ''Missing required environment variable: CLIENT_SECRET'')
   \<and> startup
        (map_of [(''TENANT_ID'', ''t''), (''CLIENT_ID'', ''c''), (''CLIENT_SECRET'', ''''),
                 (''SITE_ID'', ''i''), (''DRIVE_ID'', ''d'')])
       = Inl (RuntimeError ''Missing required environment variable: CLIENT_SECRET'')"
proof -
  let ?env = "map_of [(''TENANT_ID'', ''t''), (''CLIENT_ID'', ''c''), (''CLIENT_SECRET'', ''''),
                      (''SITE_ID'', ''i''), (''DRIVE_ID'', ''d'')]"
  have empty: "?env ''CLIENT_SECRET'' = Some []" by simp
  have mem: "''CLIENT_SECRET'' \<in> set required_variables"
    by (simp add: required_variables_def)
  have others: "\<forall>m \<in> set required_variables. m \<noteq> ''CLIENT_SECRET'' \<longrightarrow> truthy (?env m)"
    by (simp add: required_variables_def)
  note t = empty_value_is_missing [of ?env "''CLIENT_SECRET''", OF empty]
  have g: "get_env_variable ?env ''CLIENT_SECRET''
      = Inl (RuntimeError (''Missing required environment variable: '' @ ''CLIENT_SECRET''))"
    using t by blast
  have s: "startup ?env
      = Inl (RuntimeError (''Missing required environment variable: '' @ ''CLIENT_SECRET''))"
    using t mem others by blast
  have g': "get_env_variable ?env ''CLIENT_SECRET''
      = Inl (RuntimeError ''Missing required environment variable: CLIENT_SECRET'')"
    using g by simp
  have s': "startup ?env
      = Inl (RuntimeError ''Missing required environment variable: CLIENT_SECRET'')"
    using s by simp
  show ?thesis using empty g' s' by blast
qed

section \<open>File Retrieval Service: the request schema\<close>

text \<open>
  C4 (amended). The request body is rejected exactly when \<open>fileName\<close> is not a string
  (missing or \<open>null\<close>); every string, the empty one included, is accepted as the file
  name. \<open>folder\<close> is optional: a missing member gives the empty string, \<open>null\<close> gives
  \<open>None\<close>, a string gives itself.
\<close>

theorem parse_FileRequest_schema:
  "(isl (parse_FileRequest b) \<longleftrightarrow> (\<forall>n. fileName_member b \<noteq> Str n))
   \<and> (\<forall>r. parse_FileRequest b = Inr r \<longrightarrow>
         fileName_member b = Str (fileName r)
         \<and> folder r = (case folder_member b of Missing \<Rightarrow> Some [] | Null \<Rightarrow> None
                        | Str f \<Rightarrow> Some f))"
  by (auto simp: parse_FileRequest_def split: member.splits)

theorem parse_FileRequest_schema_witness:
  "parse_FileRequest \<lparr>fileName_member = Str ''report.txt'', folder_member = Missing\<rparr>
     = Inr \<lparr>fileName = ''report.txt'', folder = Some []\<rparr>
   \<and> isl (parse_FileRequest \<lparr>fileName_member = Missing, folder_member = Str ''Reports''\<rparr>)"
  using parse_FileRequest_schema [of "\<lparr>fileName_member = Str ''report.txt'', folder_member = Missing\<rparr>"]
    parse_FileRequest_schema [of "\<lparr>fileName_member = Missing, folder_member = Str ''Reports''\<rparr>"]
  by (simp add: parse_FileRequest_def)

text \<open>A body whose \<open>fileName\<close> is the empty string is accepted.\<close>

theorem empty_fileName_counterexample:
  "parse_FileRequest \<lparr>fileName_member = Str [], folder_member = Missing\<rparr>
     = Inr \<lparr>fileName = [], folder = Some []\<rparr>"
  by (simp add: parse_FileRequest_def)

section \<open>File Retrieval Service: error responses of the content fetch\<close>

text \<open>
  C2, at a body that cannot be decoded as text. \<open>resp.text\<close> does not raise for such a
  body, so the \<open>except UnicodeDecodeError\<close> clause of \<open>download_file_by_path\<close> is never
  entered: whatever the bytes of a successful response, also undecodable ones, the
  operation returns the text httpx made of them, which the service answers with HTTP
  200; and no outcome of the fetch makes the operation raise HTTP 400.
\<close>

theorem download_undecodable_body:
  "fst (download_file_by_path cfg (\<lambda>k c. Success (p\<lparr>body_decodable := False\<rparr>)) folder' n tok log)
     = Inr (body_text p)
   \<and> fst (download_file_by_path cfg net folder' n tok log) \<noteq> Inl (HTTPException 400 d)"
  by (auto simp: download_file_by_path_def send_def response_text_def Let_def
      split: upstream.splits)

text \<open>
  The two other parts of C2 hold of the code: a 404 of the upstream call gives HTTP 404
  with a detail naming the requested file and folder, any other HTTP error status gives
  HTTP 500 carrying the upstream error text.
\<close>

lemma download_status_errors:
  "(net (length log)
        (Get (content_url cfg (encoded_path folder' n)) [(''Authorization'', ''Bearer '' @ tok)])
      = StatusError 404 m \<longrightarrow>
      fst (download_file_by_path cfg net folder' n tok log)
        = Inl (HTTPException 404
            (''Archivo '' @ [CHR 0x27] @ n @ [CHR 0x27] @ '' no encontrado en ''
               @ [CHR 0x27] @ fmt folder' @ [CHR 0x27])))
   \<and> (net (length log)
        (Get (content_url cfg (encoded_path folder' n)) [(''Authorization'', ''Bearer '' @ tok)])
      = StatusError code m \<and> code \<noteq> 404 \<longrightarrow>
      fst (download_file_by_path cfg net folder' n tok log)
        = Inl (HTTPException 500 (''Error al acceder a Graph: '' @ m)))
   \<and> (net (length log)
        (Get (content_url cfg (encoded_path folder' n)) [(''Authorization'', ''Bearer '' @ tok)])
      = Success p \<longrightarrow>
      fst (download_file_by_path cfg net folder' n tok log) = Inr (body_text p))"
  by (simp add: download_file_by_path_def send_def not_found_detail_def response_text_def)

lemma download_status_errors_example:
  "fst (download_file_by_path example_settings (\<lambda>k c. StatusError 404 ''Not Found'')
          (Some ''Reports'') ''report.txt'' ''tok'' [])
     = Inl (HTTPException 404
         (''Archivo '' @ [CHR 0x27] @ ''report.txt'' @ [CHR 0x27] @ '' no encontrado en ''
            @ [CHR 0x27] @ ''Reports'' @ [CHR 0x27]))
   \<and> fst (download_file_by_path example_settings (\<lambda>k c. StatusError 503 ''Service Unavailable'')
          (Some ''Reports'') ''report.txt'' ''tok'' [])
     = Inl (HTTPException 500 ''Error al acceder a Graph: Service Unavailable'')"
  by (simp add: download_file_by_path_def send_def not_found_detail_def)

text \<open>
  A failure below HTTP (connection refused, timeout) is not an \<open>HTTPStatusError\<close>:
  the handler does not catch it, and it leaves \<open>download_file_by_path\<close> as it is.
\<close>

lemma download_transport_error_propagates:
  "net (length log)
      (Get (content_url cfg (encoded_path folder' n)) [(''Authorization'', ''Bearer '' @ tok)])
     = TransportError m \<Longrightarrow>
   fst (download_file_by_path cfg net folder' n tok log)
     = Inl (Uncaught (OtherException ''httpx.TransportError'' m))"
  by (simp add: download_file_by_path_def send_def)

section \<open>File Retrieval Service: failures of the token exchange\<close>



section \<open>File Retrieval Service: one token per request\<close>

lemma acquire_access_token_log:
  "snd (acquire_access_token cfg net log) = log @ [Post (AUTHORITY cfg) (token_form cfg)]"
  by (simp add: acquire_access_token_def send_def Let_def
      split: upstream.splits sum.splits option.splits)

lemma acquire_access_token_result:
  "fst (acquire_access_token cfg net log) = Inr tok \<Longrightarrow>
     \<exists>p d. net (length log) (Post (AUTHORITY cfg) (token_form cfg)) = Success p
          \<and> body_json p = Inr d \<and> dict_get d ''access_token'' = Some tok \<and> tok \<noteq> []"
  by (auto simp: acquire_access_token_def send_def Let_def
      split: upstream.splits sum.splits option.splits if_splits)

text \<open>
  C5. Whatever calls the process has made before (\<open>log\<close>), a \<open>POST /get_file\<close> request
  first makes its own token \<open>POST\<close>. Either no token is obtained, and the request ends
  with an error after that single call; or the response to that very \<open>POST\<close> carries a
  non-empty \<open>access_token\<close>, and the request's second and last call is the content
  \<open>GET\<close>, after the \<open>POST\<close>, bearing exactly that token. The handler has no state
  besides the log, so no token of an earlier request can be used.
\<close>

theorem get_file_own_token:
  "(\<exists>e. get_file cfg net req log = (Inl e, log @ [Post (AUTHORITY cfg) (token_form cfg)])
        \<and> (\<forall>tok. fst (acquire_access_token cfg net log) \<noteq> Inr tok))
   \<or> (\<exists>p d tok. net (length log) (Post (AUTHORITY cfg) (token_form cfg)) = Success p
        \<and> body_json p = Inr d \<and> dict_get d ''access_token'' = Some tok \<and> tok \<noteq> []
        \<and> snd (get_file cfg net req log)
            = log @ [Post (AUTHORITY cfg) (token_form cfg),
                     Get (content_url cfg (encoded_path (folder req) (fileName req)))
                         [(''Authorization'', ''Bearer '' @ tok)]])"
proof (cases "fst (acquire_access_token cfg net log)")
  case (Inl e)
  then have "acquire_access_token cfg net log = (Inl e, log @ [Post (AUTHORITY cfg) (token_form cfg)])"
    using acquire_access_token_log [of cfg net log] by (metis prod.collapse)
  then have "get_file cfg net req log = (Inl e, log @ [Post (AUTHORITY cfg) (token_form cfg)])"
    by (simp add: get_file_def)
  then show ?thesis using Inl by auto
next
  case (Inr tok)
  then obtain p d where pd: "net (length log) (Post (AUTHORITY cfg) (token_form cfg)) = Success p"
      "body_json p = Inr d" "dict_get d ''access_token'' = Some tok" "tok \<noteq> []"
    using acquire_access_token_result by blast
  have "acquire_access_token cfg net log = (Inr tok, log @ [Post (AUTHORITY cfg) (token_form cfg)])"
    using Inr acquire_access_token_log [of cfg net log] by (metis prod.collapse)
  then have "snd (get_file cfg net req log)
      = snd (download_file_by_path cfg net (folder req) (fileName req) tok
               (log @ [Post (AUTHORITY cfg) (token_form cfg)]))"
    by (simp add: get_file_def)
  also have "\<dots> = log @ [Post (AUTHORITY cfg) (token_form cfg),
                     Get (content_url cfg (encoded_path (folder req) (fileName req)))
                         [(''Authorization'', ''Bearer '' @ tok)]]"
    by (simp add: download_file_by_path_def send_def Let_def split: upstream.splits option.splits)
  finally show ?thesis using pd by blast
qed

text \<open>
  Two requests in sequence: each makes its own token call, and each fetch bears the
  token issued to its own request.
\<close>

lemma first_request:
  "get_file example_settings example_network \<lparr>fileName = ''a.txt'', folder = Some []\<rparr> []
     = (Inr ''hello'',
        [Post (AUTHORITY example_settings) (token_form example_settings),
         Get (content_url example_settings ''/a.txt'') [(''Authorization'', ''Bearer first'')]])"
  by (simp add: get_file_def acquire_access_token_def download_file_by_path_def send_def
      example_network_def token_payload_def dict_get_def encoded_path_eq percent_encode_spaces_def
      response_text_def)

theorem get_file_own_token_witness:
  "snd (get_file example_settings example_network \<lparr>fileName = ''b.txt'', folder = Some []\<rparr>
          (snd (get_file example_settings example_network \<lparr>fileName = ''a.txt'', folder = Some []\<rparr> [])))
     = [Post (AUTHORITY example_settings) (token_form example_settings),
        Get (content_url example_settings ''/a.txt'') [(''Authorization'', ''Bearer first'')],
        Post (AUTHORITY example_settings) (token_form example_settings),
        Get (content_url example_settings ''/b.txt'') [(''Authorization'', ''Bearer second'')]]"
  using get_file_own_token [of example_settings example_network "\<lparr>fileName = ''b.txt'', folder = Some []\<rparr>"
      "[Post (AUTHORITY example_settings) (token_form example_settings),
        Get (content_url example_settings ''/a.txt'') [(''Authorization'', ''Bearer first'')]]"]
  by (simp add: first_request get_file_def acquire_access_token_def download_file_by_path_def
      send_def example_network_def token_payload_def dict_get_def encoded_path_eq percent_encode_spaces_def
      response_text_def)

section \<open>Discovery Utility: the default drive\<close>

text \<open>
  C8. For every drive listing that the site's \<open>drives\<close> resource returns,
  Resolve Default Drive Identifier returns the \<open>id\<close> of the first entry of the
  collection, whatever entries follow it, and fails with the error
  \<open>The specified site has no drives\<close> when the collection is empty (or missing).
\<close>

theorem first_drive_is_default:
  assumes "w (length log) (Get (''https://graph.microsoft.com/v1.0/sites/'' @ site_id @ ''/drives'')
              headers) = Reply resp"
    and "http_error resp = None" and "resp_json resp = Inr doc"
  shows "(value_member doc = Some (d # rest) \<and> map_of d ''id'' = Some v \<longrightarrow>
            fst (get_default_drive_id site_id headers w log) = Inr v)
       \<and> (value_member doc = Some [] \<or> value_member doc = None \<longrightarrow>
            fst (get_default_drive_id site_id headers w log)
              = Inl (RuntimeError ''The specified site has no drives''))"
  using assms by (auto simp: get_default_drive_id_def request_def Let_def)

theorem first_drive_is_default_witness:
  "fst (get_default_drive_id ''site-1'' [(''Authorization'', ''Bearer tok'')] example_web []) = Inr (Some ''drive-A'')
   \<and> fst (get_default_drive_id ''site-1'' [(''Authorization'', ''Bearer tok'')]
            (\<lambda>k c. json_reply \<lparr>members = [], value_member = Some []\<rparr>) [])
       = Inl (RuntimeError ''The specified site has no drives'')"
  using first_drive_is_default [of example_web "[]" "''site-1''" "[(''Authorization'', ''Bearer tok'')]"
      "\<lparr>http_error = None, resp_text = [], resp_json = Inr \<lparr>members = [],
                 value_member = Some [[(''id'', Some ''drive-A''), (''name'', Some ''Documents'')],
                                      [(''id'', Some ''drive-B'')]]\<rparr>\<rparr>"
      "\<lparr>members = [],
                 value_member = Some [[(''id'', Some ''drive-A''), (''name'', Some ''Documents'')],
                                      [(''id'', Some ''drive-B'')]]\<rparr>"
      "[(''id'', Some ''drive-A''), (''name'', Some ''Documents'')]" "[[(''id'', Some ''drive-B'')]]"
      "Some ''drive-A''"]
    first_drive_is_default [of "\<lambda>k c. json_reply \<lparr>members = [], value_member = Some []\<rparr>" "[]"
      "''site-1''" "[(''Authorization'', ''Bearer tok'')]"
      "\<lparr>http_error = None, resp_text = [], resp_json = Inr \<lparr>members = [], value_member = Some []\<rparr>\<rparr>"
      "\<lparr>members = [], value_member = Some []\<rparr>" "[]" "[]" None]
  by (simp add: example_web_def json_reply_def)

section \<open>Discovery Utility: the run\<close>

text \<open>Each operation makes exactly one call, appended to the log.\<close>

lemma acquire_token_log:
  "snd (acquire_token tenant_id client_id client_secret w log)
     = log @ [Post (''https://login.microsoftonline.com/'' @ tenant_id @ ''/oauth2/v2.0/token'')
                [(''client_id'', client_id), (''client_secret'', client_secret),
                 (''scope'', ''https://graph.microsoft.com/.default''),
                 (''grant_type'', ''client_credentials'')]]"
  by (simp add: acquire_token_def request_def Let_def
      split: reply.splits option.splits sum.splits)

lemma get_site_id_log:
  "snd (get_site_id domain site_name headers w log)
     = log @ [Get (''https://graph.microsoft.com/v1.0/sites/'' @ domain @ '':/sites/'' @ site_name)
                headers]"
  by (simp add: get_site_id_def request_def Let_def
      split: reply.splits option.splits sum.splits)

lemma get_default_drive_id_log:
  "snd (get_default_drive_id site_id headers w log)
     = log @ [Get (''https://graph.microsoft.com/v1.0/sites/'' @ site_id @ ''/drives'') headers]"
  by (simp add: get_default_drive_id_def request_def Let_def
      split: reply.splits option.splits sum.splits list.splits)

text \<open>
  C6. When token acquisition, site resolution and drive resolution all succeed, the run
  makes exactly three calls in this order: the token \<open>POST\<close>, the site \<open>GET\<close>, the
  drives \<open>GET\<close>; it prints exactly two lines to standard output, \<open>SITE_ID=\<close> with the
  resolved site identifier and then \<open>DRIVE_ID=\<close> with the resolved drive identifier,
  prints nothing to the error stream, and returns 0.
\<close>

theorem main_success:
  assumes "acquire_token (tenant_id_arg a) (client_id_arg a) (client_secret_arg a) w []
             = (Inr token, log1)"
    and "get_site_id (domain_arg a) (site_name_arg a) [(''Authorization'', ''Bearer '' @ token)] w log1
             = (Inr site_id, log2)"
    and "get_default_drive_id site_id [(''Authorization'', ''Bearer '' @ token)] w log2
             = (Inr drive_id, log3)"
  shows "main a w = \<lparr>result = Inr 0,
                      stdout = [''SITE_ID='' @ site_id, ''DRIVE_ID='' @ fmt drive_id],
                      stderr = [], calls = log3\<rparr>
       \<and> log3 = [Post (''https://login.microsoftonline.com/'' @ tenant_id_arg a @ ''/oauth2/v2.0/token'')
                   [(''client_id'', client_id_arg a), (''client_secret'', client_secret_arg a),
                    (''scope'', ''https://graph.microsoft.com/.default''),
                    (''grant_type'', ''client_credentials'')],
                 Get (''https://graph.microsoft.com/v1.0/sites/'' @ domain_arg a @ '':/sites/''
                        @ site_name_arg a) [(''Authorization'', ''Bearer '' @ token)],
                 Get (''https://graph.microsoft.com/v1.0/sites/'' @ site_id @ ''/drives'')
                     [(''Authorization'', ''Bearer '' @ token)]]"
proof -
  have m: "main a w = \<lparr>result = Inr 0,
                      stdout = [''SITE_ID='' @ site_id, ''DRIVE_ID='' @ fmt drive_id],
                      stderr = [], calls = log3\<rparr>"
    using assms by (simp add: main_def)
  have l1: "log1 = snd (acquire_token (tenant_id_arg a) (client_id_arg a) (client_secret_arg a) w [])"
    using assms(1) by simp
  have l2: "log2 = snd (get_site_id (domain_arg a) (site_name_arg a)
                          [(''Authorization'', ''Bearer '' @ token)] w log1)"
    using assms(2) by simp
  have l3: "log3 = snd (get_default_drive_id site_id [(''Authorization'', ''Bearer '' @ token)] w log2)"
    using assms(3) by simp
  show ?thesis
    using m by (simp add: l3 l2 l1 acquire_token_log get_site_id_log get_default_drive_id_log)
qed

lemma acquire_token_example_web:
  "acquire_token ''t'' ''c'' ''s'' example_web []
     = (Inr ''tok'',
        [Post ''https://login.microsoftonline.com/t/oauth2/v2.0/token''
           [(''client_id'', ''c''), (''client_secret'', ''s''),
            (''scope'', ''https://graph.microsoft.com/.default''),
            (''grant_type'', ''client_credentials'')]])"
  by (simp add: acquire_token_def request_def example_web_def json_reply_def dict_get_def)

lemma get_site_id_example_web:
  "get_site_id ''contoso.sharepoint.com'' ''Ventas'' [(''Authorization'', ''Bearer tok'')] example_web [c]
     = (Inr ''site-1'',
        [c, Get ''https://graph.microsoft.com/v1.0/sites/contoso.sharepoint.com:/sites/Ventas''
              [(''Authorization'', ''Bearer tok'')]])"
  by (simp add: get_site_id_def request_def example_web_def json_reply_def dict_get_def)

lemma get_default_drive_id_example_web:
  "get_default_drive_id ''site-1'' [(''Authorization'', ''Bearer tok'')] example_web [c, c']
     = (Inr (Some ''drive-A''),
        [c, c', Get ''https://graph.microsoft.com/v1.0/sites/site-1/drives''
              [(''Authorization'', ''Bearer tok'')]])"
  by (simp add: get_default_drive_id_def request_def example_web_def json_reply_def)

theorem main_success_witness:
  "main example_args example_web
     = \<lparr>result = Inr 0, stdout = [''SITE_ID=site-1'', ''DRIVE_ID=drive-A''], stderr = [],
        calls = [Post ''https://login.microsoftonline.com/t/oauth2/v2.0/token''
                   [(''client_id'', ''c''), (''client_secret'', ''s''),
                    (''scope'', ''https://graph.microsoft.com/.default''),
                    (''grant_type'', ''client_credentials'')],
                 Get ''https://graph.microsoft.com/v1.0/sites/contoso.sharepoint.com:/sites/Ventas''
                   [(''Authorization'', ''Bearer tok'')],
                 Get ''https://graph.microsoft.com/v1.0/sites/site-1/drives''
                   [(''Authorization'', ''Bearer tok'')]]\<rparr>"
proof -
  have a: "acquire_token (tenant_id_arg example_args) (client_id_arg example_args) (client_secret_arg example_args)
             example_web []
           = (Inr ''tok'',
              [Post ''https://login.microsoftonline.com/t/oauth2/v2.0/token''
                 [(''client_id'', ''c''), (''client_secret'', ''s''),
                  (''scope'', ''https://graph.microsoft.com/.default''),
                  (''grant_type'', ''client_credentials'')]])"
    by (simp add: example_args_def acquire_token_example_web)
  have b: "get_site_id (domain_arg example_args) (site_name_arg example_args)
             [(''Authorization'', ''Bearer '' @ ''tok'')] example_web
             [Post ''https://login.microsoftonline.com/t/oauth2/v2.0/token''
                 [(''client_id'', ''c''), (''client_secret'', ''s''),
                  (''scope'', ''https://graph.microsoft.com/.default''),
                  (''grant_type'', ''client_credentials'')]]
           = (Inr ''site-1'',
              [Post ''https://login.microsoftonline.com/t/oauth2/v2.0/token''
                 [(''client_id'', ''c''), (''client_secret'', ''s''),
                  (''scope'', ''https://graph.microsoft.com/.default''),
                  (''grant_type'', ''client_credentials'')],
               Get ''https://graph.microsoft.com/v1.0/sites/contoso.sharepoint.com:/sites/Ventas''
                 [(''Authorization'', ''Bearer tok'')]])"
    by (simp add: example_args_def get_site_id_example_web)
  have c: "get_default_drive_id ''site-1'' [(''Authorization'', ''Bearer '' @ ''tok'')] example_web
             [Post ''https://login.microsoftonline.com/t/oauth2/v2.0/token''
                 [(''client_id'', ''c''), (''client_secret'', ''s''),
                  (''scope'', ''https://graph.microsoft.com/.default''),
                  (''grant_type'', ''client_credentials'')],
               Get ''https://graph.microsoft.com/v1.0/sites/contoso.sharepoint.com:/sites/Ventas''
                 [(''Authorization'', ''Bearer tok'')]]
           = (Inr (Some ''drive-A''),
              [Post ''https://login.microsoftonline.com/t/oauth2/v2.0/token''
                 [(''client_id'', ''c''), (''client_secret'', ''s''),
                  (''scope'', ''https://graph.microsoft.com/.default''),
                  (''grant_type'', ''client_credentials'')],
               Get ''https://graph.microsoft.com/v1.0/sites/contoso.sharepoint.com:/sites/Ventas''
                 [(''Authorization'', ''Bearer tok'')],
               Get ''https://graph.microsoft.com/v1.0/sites/site-1/drives''
                 [(''Authorization'', ''Bearer tok'')]])"
    by (simp add: get_default_drive_id_example_web)
  show ?thesis using main_success [OF a b c] by simp
qed

text \<open>
  C7, at a connection failure of the token call: \<open>requests.post\<close> raises outside the
  \<open>try\<close> of \<open>acquire_token\<close>, the exception is no \<open>RuntimeError\<close>, and
  \<open>except RuntimeError\<close> in \<open>main\<close> does not catch it. The run ends with the exception
  leaving \<open>main\<close>: no line \<open>Error acquiring token:\<close> is printed and no status is
  returned.
\<close>

theorem main_token_connection_failure:
  "main example_args (\<lambda>k c. Raised ''ConnectionError'' ''Connection refused'')
     = \<lparr>result = Inl (OtherException ''ConnectionError'' ''Connection refused''),
        stdout = [], stderr = [],
        calls = [Post ''https://login.microsoftonline.com/t/oauth2/v2.0/token''
                   [(''client_id'', ''c''), (''client_secret'', ''s''),
                    (''scope'', ''https://graph.microsoft.com/.default''),
                    (''grant_type'', ''client_credentials'')]]\<rparr>"
  by (simp add: main_def acquire_token_def request_def example_args_def)

text \<open>
  In every other failure the run prints one line with the stage's prefix to the error
  stream, prints nothing to standard output, returns 1 and makes no later call.
\<close>

lemma main_token_RuntimeError:
  "acquire_token (tenant_id_arg a) (client_id_arg a) (client_secret_arg a) w []
     = (Inl (RuntimeError m), log1) \<Longrightarrow>
   main a w = \<lparr>result = Inr 1, stdout = [], stderr = [''Error acquiring token: '' @ m],
               calls = log1\<rparr>
   \<and> length log1 = 1"
  using acquire_token_log [of "tenant_id_arg a" "client_id_arg a" "client_secret_arg a" w "[]"]
  by (simp add: main_def)

lemma main_site_failure:
  "acquire_token (tenant_id_arg a) (client_id_arg a) (client_secret_arg a) w []
     = (Inr token, log1) \<Longrightarrow>
   get_site_id (domain_arg a) (site_name_arg a) [(''Authorization'', ''Bearer '' @ token)] w log1
     = (Inl e, log2) \<Longrightarrow>
   main a w = \<lparr>result = Inr 1, stdout = [], stderr = [''Error obtaining site ID: '' @ exc_str e],
               calls = log2\<rparr>
   \<and> length log2 = 2"
  using acquire_token_log [of "tenant_id_arg a" "client_id_arg a" "client_secret_arg a" w "[]"]
    get_site_id_log [of "domain_arg a" "site_name_arg a" "[(''Authorization'', ''Bearer '' @ token)]" w log1]
  by (simp add: main_def)

lemma main_drive_failure:
  "acquire_token (tenant_id_arg a) (client_id_arg a) (client_secret_arg a) w []
     = (Inr token, log1) \<Longrightarrow>
   get_site_id (domain_arg a) (site_name_arg a) [(''Authorization'', ''Bearer '' @ token)] w log1
     = (Inr site_id, log2) \<Longrightarrow>
   get_default_drive_id site_id [(''Authorization'', ''Bearer '' @ token)] w log2 = (Inl e, log3) \<Longrightarrow>
   main a w = \<lparr>result = Inr 1, stdout = [], stderr = [''Error obtaining drive ID: '' @ exc_str e],
               calls = log3\<rparr>"
  by (simp add: main_def)

text \<open>
  The token stage fails with something other than a \<open>RuntimeError\<close> exactly when
  \<open>requests.post\<close> raises or the body of a successful response is not JSON.
\<close>

lemma acquire_token_not_RuntimeError:
  "fst (acquire_token tenant_id client_id client_secret w log) = Inl e \<Longrightarrow> \<not> is_RuntimeError e \<Longrightarrow>
     (\<exists>cls m. w (length log) (Post (''https://login.microsoftonline.com/'' @ tenant_id @ ''/oauth2/v2.0/token'')
                [(''client_id'', client_id), (''client_secret'', client_secret),
                 (''scope'', ''https://graph.microsoft.com/.default''),
                 (''grant_type'', ''client_credentials'')]) = Raised cls m)
     \<or> (\<exists>resp m. w (length log) (Post (''https://login.microsoftonline.com/'' @ tenant_id @ ''/oauth2/v2.0/token'')
                [(''client_id'', client_id), (''client_secret'', client_secret),
                 (''scope'', ''https://graph.microsoft.com/.default''),
                 (''grant_type'', ''client_credentials'')]) = Reply resp
           \<and> http_error resp = None \<and> resp_json resp = Inl m)"
  by (auto simp: acquire_token_def request_def Let_def
      split: reply.splits option.splits sum.splits if_splits)

end
